theory Spec2Isabelle
  imports Main "HOL-Library.Word"
begin

unbundle bit_operations_syntax

section \<open>The Windows service controller of \<^verbatim>\<open>winService.cpp\<close>\<close>

text \<open>
  The class \<^verbatim>\<open>wotan::winService\<close> hosts a Windows service: the service control
  manager (SCM) calls \<^verbatim>\<open>ServiceMain\<close> once and \<^verbatim>\<open>ServiceCtrlHandler\<close> for every
  control code; each transition reports a pending state, runs a virtual callback of the
  concrete service and reports the final state, catching whatever the callback throws.

  The embedding keeps the members of the class in a record, the function-static
  checkpoint counter of \<^verbatim>\<open>setServiceStatus\<close> and the calls made to the platform
  (\<^verbatim>\<open>::SetServiceStatus\<close>, \<^verbatim>\<open>ReportEvent\<close>) and to the virtual callbacks in a second
  record, and C++ exceptions as values: every member function maps a state to the
  exception that leaves it (if any) and the state it leaves behind.
\<close>

subsection \<open>Win32 types and constants\<close>

type_synonym DWORD = "32 word"
type_synonym WORD = "16 word"

text \<open>\<^verbatim>\<open>BOOL\<close> is a 32-bit integer; C++ reads every value but 0 as true.\<close>

type_synonym BOOL = "32 word"

text \<open>Handles are opaque; \<open>None\<close> is \<^verbatim>\<open>NULL\<close>.\<close>

type_synonym HANDLE = "nat option"

text \<open>
  The constants come from the Windows SDK headers (\<^verbatim>\<open>winsvc.h\<close>, \<^verbatim>\<open>winnt.h\<close>,
  \<^verbatim>\<open>winerror.h\<close>), with the values fixed there.
\<close>

definition SERVICE_STOPPED :: DWORD where "SERVICE_STOPPED = 1"
definition SERVICE_START_PENDING :: DWORD where "SERVICE_START_PENDING = 2"
definition SERVICE_STOP_PENDING :: DWORD where "SERVICE_STOP_PENDING = 3"
definition SERVICE_RUNNING :: DWORD where "SERVICE_RUNNING = 4"
definition SERVICE_CONTINUE_PENDING :: DWORD where "SERVICE_CONTINUE_PENDING = 5"
definition SERVICE_PAUSE_PENDING :: DWORD where "SERVICE_PAUSE_PENDING = 6"
definition SERVICE_PAUSED :: DWORD where "SERVICE_PAUSED = 7"

definition SERVICE_CONTROL_STOP :: DWORD where "SERVICE_CONTROL_STOP = 1"
definition SERVICE_CONTROL_PAUSE :: DWORD where "SERVICE_CONTROL_PAUSE = 2"
definition SERVICE_CONTROL_CONTINUE :: DWORD where "SERVICE_CONTROL_CONTINUE = 3"
definition SERVICE_CONTROL_INTERROGATE :: DWORD where "SERVICE_CONTROL_INTERROGATE = 4"
definition SERVICE_CONTROL_SHUTDOWN :: DWORD where "SERVICE_CONTROL_SHUTDOWN = 5"

definition SERVICE_ACCEPT_STOP :: DWORD where "SERVICE_ACCEPT_STOP = 1"
definition SERVICE_ACCEPT_PAUSE_CONTINUE :: DWORD where "SERVICE_ACCEPT_PAUSE_CONTINUE = 2"
definition SERVICE_ACCEPT_SHUTDOWN :: DWORD where "SERVICE_ACCEPT_SHUTDOWN = 4"

definition SERVICE_WIN32_OWN_PROCESS :: DWORD where "SERVICE_WIN32_OWN_PROCESS = 16"
definition NO_ERROR :: DWORD where "NO_ERROR = 0"
definition EVENTLOG_ERROR_TYPE :: WORD where "EVENTLOG_ERROR_TYPE = 1"

subsection \<open>Data\<close>

text \<open>The \<^verbatim>\<open>SERVICE_STATUS\<close> structure handed to the SCM.\<close>

record SERVICE_STATUS =
  dwServiceType :: DWORD
  dwCurrentState :: DWORD
  dwControlsAccepted :: DWORD
  dwWin32ExitCode :: DWORD
  dwServiceSpecificExitCode :: DWORD
  dwCheckPoint :: DWORD
  dwWaitHint :: DWORD

text \<open>
  The data members of \<^verbatim>\<open>winService\<close>. A name cannot end in an underscore here, so
  \<^verbatim>\<open>name_\<close>, \<^verbatim>\<open>statusHandle_\<close>, \<^verbatim>\<open>status_\<close> and \<^verbatim>\<open>service_\<close> carry the prefix
  \<open>m_\<close> instead.
\<close>

record winService =
  m_name :: string
  m_statusHandle :: HANDLE
  m_status :: SERVICE_STATUS

text \<open>What a \<^verbatim>\<open>throw\<close> carries: a \<^verbatim>\<open>DWORD\<close> error code, or anything else.\<close>

datatype thrown = Thrown_DWORD DWORD | Thrown_other

text \<open>
  The virtual callbacks of the concrete service. The controller uses nothing of a callback
  but whether it returns or throws, so a callback is modelled by that outcome (\<open>None\<close>:
  it returns) and is taken not to touch the controller's members.
\<close>

record callbacks =
  onStart :: "DWORD \<Rightarrow> string list \<Rightarrow> thrown option"
  onStop :: "thrown option"
  onPause :: "thrown option"
  onContinue :: "thrown option"
  onShutdown :: "thrown option"

datatype callback = OnStart DWORD "string list" | OnStop | OnPause | OnContinue | OnShutdown

text \<open>The calls that leave the controller, in the order they are made.\<close>

datatype call =
  SetServiceStatus_call HANDLE SERVICE_STATUS
  | ReportEvent_call WORD "string list"
  | Callback_call callback

text \<open>
  The process: the object that the static pointer \<^verbatim>\<open>service_\<close> designates, the
  function-static \<^verbatim>\<open>dwCheckPoint\<close> of \<^verbatim>\<open>setServiceStatus\<close>, whether
  \<^verbatim>\<open>RegisterEventSource\<close> yields a handle, and the calls made so far (oldest first).
\<close>

record process =
  m_service :: winService
  static_dwCheckPoint :: DWORD
  eventSource :: bool
  calls :: "call list"

subsection \<open>Control flow with exceptions\<close>

type_synonym action = "process \<Rightarrow> thrown option \<times> process"

text \<open>A block of statements: the first \<^verbatim>\<open>throw\<close> skips the rest.\<close>

fun block :: "action list \<Rightarrow> action" where
  "block [] s = (None, s)"
| "block (a # as) s =
     (case a s of
        (None, s') \<Rightarrow> block as s'
      | (Some e, s') \<Rightarrow> (Some e, s'))"

text \<open>
  \<^verbatim>\<open>try { body } catch (DWORD dwError) { on_dword } catch (...) { on_other }\<close>:
  an exception of the handlers themselves leaves the statement.
\<close>

definition try_catch :: "action \<Rightarrow> (DWORD \<Rightarrow> action) \<Rightarrow> action \<Rightarrow> action" where
  "try_catch body on_dword on_other s =
     (case body s of
        (None, s') \<Rightarrow> (None, s')
      | (Some (Thrown_DWORD dwError), s') \<Rightarrow> on_dword dwError s'
      | (Some Thrown_other, s') \<Rightarrow> on_other s')"

definition throw :: "thrown \<Rightarrow> action" where
  "throw e s = (Some e, s)"

text \<open>Calling a virtual callback: the call is recorded, its outcome is the callback's.\<close>

definition invoke :: "callback \<Rightarrow> thrown option \<Rightarrow> action" where
  "invoke cb outcome s = (outcome, s\<lparr>calls := calls s @ [Callback_call cb]\<rparr>)"

subsection \<open>Constructor\<close>

definition winService_ctor :: "string option \<Rightarrow> BOOL \<Rightarrow> BOOL \<Rightarrow> BOOL \<Rightarrow> winService" where
  "winService_ctor pszServiceName fCanStop fCanShutdown fCanPauseContinue =
     (let dwControlsAccepted = (0 :: DWORD);
          dwControlsAccepted =
            (if fCanStop \<noteq> 0 then dwControlsAccepted OR SERVICE_ACCEPT_STOP
             else dwControlsAccepted);
          dwControlsAccepted =
            (if fCanShutdown \<noteq> 0 then dwControlsAccepted OR SERVICE_ACCEPT_SHUTDOWN
             else dwControlsAccepted);
          dwControlsAccepted =
            (if fCanPauseContinue \<noteq> 0 then dwControlsAccepted OR SERVICE_ACCEPT_PAUSE_CONTINUE
             else dwControlsAccepted)
      in \<lparr> m_name = (case pszServiceName of None \<Rightarrow> '''' | Some n \<Rightarrow> n),
           m_statusHandle = None,
           m_status = \<lparr> dwServiceType = SERVICE_WIN32_OWN_PROCESS,
                       dwCurrentState = SERVICE_START_PENDING,
                       dwControlsAccepted = dwControlsAccepted,
                       dwWin32ExitCode = NO_ERROR,
                       dwServiceSpecificExitCode = 0,
                       dwCheckPoint = 0,
                       dwWaitHint = 0 \<rparr> \<rparr>)"

subsection \<open>Helper functions\<close>

text \<open>
  \<^verbatim>\<open>setServiceStatus\<close>: the checkpoint is 0 for \<^verbatim>\<open>SERVICE_RUNNING\<close> and
  \<^verbatim>\<open>SERVICE_STOPPED\<close>, else the static counter, which is then incremented
  (\<^verbatim>\<open>dwCheckPoint++\<close> on a 32-bit unsigned value wraps).
\<close>

definition setServiceStatus :: "DWORD \<Rightarrow> DWORD \<Rightarrow> DWORD \<Rightarrow> action" where
  "setServiceStatus dwCurrentState' dwWin32ExitCode' dwWaitHint' s =
     (let reset = (dwCurrentState' = SERVICE_RUNNING \<or> dwCurrentState' = SERVICE_STOPPED);
          st = (m_status (m_service s))
                 \<lparr> dwCurrentState := dwCurrentState',
                   dwWin32ExitCode := dwWin32ExitCode',
                   dwWaitHint := dwWaitHint',
                   dwCheckPoint := (if reset then 0 else static_dwCheckPoint s) \<rparr>
      in (None,
          s\<lparr> m_service := (m_service s)\<lparr>m_status := st\<rparr>,
             static_dwCheckPoint :=
               (if reset then static_dwCheckPoint s else static_dwCheckPoint s + 1),
             calls := calls s @ [SetServiceStatus_call (m_statusHandle (m_service s)) st] \<rparr>))"

text \<open>
  Modelled from the spec: the default arguments of \<^verbatim>\<open>setServiceStatus\<close> are declared in
  \<^verbatim>\<open>winService.hpp\<close>, which is not among the sources; the spec gives
  \<^verbatim>\<open>report(handle, state, exitCode=0, waitHintMs=0)\<close>.
\<close>

definition default_dwWin32ExitCode :: DWORD where
  "default_dwWin32ExitCode = NO_ERROR"

definition default_dwWaitHint :: DWORD where
  "default_dwWaitHint = 0"

definition setServiceStatus1 :: "DWORD \<Rightarrow> action" where
  "setServiceStatus1 dwCurrentState' =
     setServiceStatus dwCurrentState' default_dwWin32ExitCode default_dwWaitHint"

definition setServiceStatus2 :: "DWORD \<Rightarrow> DWORD \<Rightarrow> action" where
  "setServiceStatus2 dwCurrentState' dwWin32ExitCode' =
     setServiceStatus dwCurrentState' dwWin32ExitCode' default_dwWaitHint"

text \<open>
  \<^verbatim>\<open>writeEventLogEntry\<close>: one \<^verbatim>\<open>ReportEvent\<close> with the service name and the message,
  if the event source could be registered; nothing otherwise.
\<close>

definition writeEventLogEntry :: "string \<Rightarrow> WORD \<Rightarrow> action" where
  "writeEventLogEntry pszMessage wType s =
     (None,
      if eventSource s
      then s\<lparr>calls := calls s @ [ReportEvent_call wType [m_name (m_service s), pszMessage]]\<rparr>
      else s)"

text \<open>\<^verbatim>\<open>%08lx\<close> of a 32-bit value: eight lower-case hexadecimal digits.\<close>

definition hex_digit :: "DWORD \<Rightarrow> char" where
  "hex_digit d = ''0123456789abcdef'' ! unat (d AND 15)"

definition hex08lx :: "DWORD \<Rightarrow> string" where
  "hex08lx d = map (\<lambda>i. hex_digit (drop_bit (4 * i) d)) [7, 6, 5, 4, 3, 2, 1, 0]"

text \<open>
  \<^verbatim>\<open>writeErrorLogEntry\<close>: \<^verbatim>\<open>StringCchPrintf\<close> into a buffer of 260 characters keeps at
  most 259 of them.
\<close>

definition writeErrorLogEntry :: "string \<Rightarrow> DWORD \<Rightarrow> action" where
  "writeErrorLogEntry pszFunction dwError =
     writeEventLogEntry
       (take 259 (pszFunction @ '' failed w/err 0x'' @ hex08lx dwError))
       EVENTLOG_ERROR_TYPE"

subsection \<open>Start, Stop, Pause, Continue and Shutdown\<close>

definition start :: "callbacks \<Rightarrow> DWORD \<Rightarrow> string list \<Rightarrow> action" where
  "start cbs dwArgc pszArgv =
     try_catch
       (block [setServiceStatus1 SERVICE_START_PENDING,
               invoke (OnStart dwArgc pszArgv) (onStart cbs dwArgc pszArgv),
               setServiceStatus1 SERVICE_RUNNING])
       (\<lambda>dwError. block [writeErrorLogEntry ''Service Start'' dwError,
                           setServiceStatus2 SERVICE_STOPPED dwError])
       (block [writeEventLogEntry ''Service failed to start.'' EVENTLOG_ERROR_TYPE,
               setServiceStatus1 SERVICE_STOPPED])"

definition stop :: "callbacks \<Rightarrow> action" where
  "stop cbs s =
     (let dwOriginalState = dwCurrentState (m_status (m_service s))
      in try_catch
           (block [setServiceStatus1 SERVICE_STOP_PENDING,
                   invoke OnStop (onStop cbs),
                   setServiceStatus1 SERVICE_STOPPED])
           (\<lambda>dwError. block [writeErrorLogEntry ''Service Stop'' dwError,
                               setServiceStatus1 dwOriginalState])
           (block [writeEventLogEntry ''Service failed to stop.'' EVENTLOG_ERROR_TYPE,
                   setServiceStatus1 dwOriginalState])
           s)"

definition pause :: "callbacks \<Rightarrow> action" where
  "pause cbs =
     try_catch
       (block [setServiceStatus1 SERVICE_PAUSE_PENDING,
               invoke OnPause (onPause cbs),
               setServiceStatus1 SERVICE_PAUSED])
       (\<lambda>dwError. block [writeErrorLogEntry ''Service Pause'' dwError,
                           setServiceStatus1 SERVICE_RUNNING])
       (block [writeEventLogEntry ''Service failed to pause.'' EVENTLOG_ERROR_TYPE,
               setServiceStatus1 SERVICE_RUNNING])"

definition continue :: "callbacks \<Rightarrow> action" where
  "continue cbs =
     try_catch
       (block [setServiceStatus1 SERVICE_CONTINUE_PENDING,
               invoke OnContinue (onContinue cbs),
               setServiceStatus1 SERVICE_RUNNING])
       (\<lambda>dwError. block [writeErrorLogEntry ''Service Continue'' dwError,
                           setServiceStatus1 SERVICE_PAUSED])
       (block [writeEventLogEntry ''Service failed to resume.'' EVENTLOG_ERROR_TYPE,
               setServiceStatus1 SERVICE_PAUSED])"

definition shutdown :: "callbacks \<Rightarrow> action" where
  "shutdown cbs =
     try_catch
       (block [invoke OnShutdown (onShutdown cbs),
               setServiceStatus1 SERVICE_STOPPED])
       (\<lambda>dwError. writeErrorLogEntry ''Service Shutdown'' dwError)
       (writeEventLogEntry ''Service failed to shut down.'' EVENTLOG_ERROR_TYPE)"

subsection \<open>Entry points called by the SCM\<close>

text \<open>
  \<^verbatim>\<open>ServiceMain\<close>: \<open>hRegistered\<close> is what \<^verbatim>\<open>RegisterServiceCtrlHandler\<close> returns and
  \<open>dwLastError\<close> what \<^verbatim>\<open>GetLastError\<close> returns after it. The \<^verbatim>\<open>throw\<close> is outside
  every \<^verbatim>\<open>try\<close>.
\<close>

definition ServiceMain :: "callbacks \<Rightarrow> HANDLE \<Rightarrow> DWORD \<Rightarrow> DWORD \<Rightarrow> string list \<Rightarrow> action" where
  "ServiceMain cbs hRegistered dwLastError dwArgc pszArgv =
     block [\<lambda>s. (None, s\<lparr>m_service := (m_service s)\<lparr>m_statusHandle := hRegistered\<rparr>\<rparr>),
            \<lambda>s. if m_statusHandle (m_service s) = None
                then throw (Thrown_DWORD dwLastError) s
                else (None, s),
            start cbs dwArgc pszArgv]"

definition ServiceCtrlHandler :: "callbacks \<Rightarrow> DWORD \<Rightarrow> action" where
  "ServiceCtrlHandler cbs dwCtrl =
     (if dwCtrl = SERVICE_CONTROL_STOP then stop cbs
      else if dwCtrl = SERVICE_CONTROL_PAUSE then pause cbs
      else if dwCtrl = SERVICE_CONTROL_CONTINUE then continue cbs
      else if dwCtrl = SERVICE_CONTROL_SHUTDOWN then shutdown cbs
      else if dwCtrl = SERVICE_CONTROL_INTERROGATE then block []
      else block [])"

subsection \<open>The dispatcher\<close>

text \<open>
  \<^verbatim>\<open>winService::run\<close> stores the object in \<^verbatim>\<open>service_\<close> and hands the thread to
  \<^verbatim>\<open>StartServiceCtrlDispatcher\<close>. At that moment nothing has been reported, and the
  static counter of \<^verbatim>\<open>setServiceStatus\<close> will hold its initial 1 at the first call.
\<close>

definition loaded :: "winService \<Rightarrow> bool \<Rightarrow> process" where
  "loaded service ev =
     \<lparr> m_service = service, static_dwCheckPoint = 1, eventSource = ev, calls = [] \<rparr>"

text \<open>
  The dispatcher delivers one request at a time, each to the service as its callbacks
  behave at that moment; an exception that leaves an entry point ends the process.
\<close>

datatype request =
  Request_ServiceMain HANDLE DWORD DWORD "string list"
  | Request_Control DWORD

fun deliver :: "callbacks \<Rightarrow> request \<Rightarrow> action" where
  "deliver cbs (Request_ServiceMain hRegistered dwLastError dwArgc pszArgv) =
     ServiceMain cbs hRegistered dwLastError dwArgc pszArgv"
| "deliver cbs (Request_Control dwCtrl) = ServiceCtrlHandler cbs dwCtrl"

fun dispatch :: "(callbacks \<times> request) list \<Rightarrow> action" where
  "dispatch [] s = (None, s)"
| "dispatch ((cbs, r) # rs) s =
     (case deliver cbs r s of
        (None, s') \<Rightarrow> dispatch rs s'
      | (Some e, s') \<Rightarrow> (Some e, s'))"


subsection \<open>Observations\<close>

text \<open>The status reports that reached the SCM, oldest first.\<close>

fun reports_of :: "call list \<Rightarrow> SERVICE_STATUS list" where
  "reports_of [] = []"
| "reports_of (SetServiceStatus_call h st # cs) = st # reports_of cs"
| "reports_of (_ # cs) = reports_of cs"

definition reports :: "process \<Rightarrow> SERVICE_STATUS list" where
  "reports s = reports_of (calls s)"

text \<open>The entries that reached the event log, oldest first.\<close>

fun logged_of :: "call list \<Rightarrow> (WORD \<times> string list) list" where
  "logged_of [] = []"
| "logged_of (ReportEvent_call wType strings # cs) = (wType, strings) # logged_of cs"
| "logged_of (_ # cs) = logged_of cs"

definition logged :: "process \<Rightarrow> (WORD \<times> string list) list" where
  "logged s = logged_of (calls s)"

text \<open>The callbacks that were called, oldest first.\<close>

fun invoked_of :: "call list \<Rightarrow> callback list" where
  "invoked_of [] = []"
| "invoked_of (Callback_call cb # cs) = cb # invoked_of cs"
| "invoked_of (_ # cs) = invoked_of cs"

definition invoked :: "process \<Rightarrow> callback list" where
  "invoked s = invoked_of (calls s)"





subsection \<open>Concrete services and runs\<close>

definition all_succeed :: callbacks where
  "all_succeed =
     \<lparr> onStart = (\<lambda>dwArgc pszArgv. None), onStop = None, onPause = None,
       onContinue = None, onShutdown = None \<rparr>"

definition all_fail :: "thrown \<Rightarrow> callbacks" where
  "all_fail e =
     \<lparr> onStart = (\<lambda>dwArgc pszArgv. Some e), onStop = Some e, onPause = Some e,
       onContinue = Some e, onShutdown = Some e \<rparr>"

text \<open>A service that can be stopped, paused and continued, before \<^verbatim>\<open>ServiceMain\<close>.\<close>

definition fresh :: process where
  "fresh = loaded (winService_ctor (Some ''svc'') 1 0 1) True"

text \<open>Start succeeds.\<close>

definition started :: process where
  "started = snd (dispatch [(all_succeed, Request_ServiceMain (Some 1) 0 0 [])] fresh)"

text \<open>Start succeeds, Pause succeeds.\<close>

definition paused :: process where
  "paused =
     snd (dispatch [(all_succeed, Request_ServiceMain (Some 1) 0 0 []),
                    (all_succeed, Request_Control SERVICE_CONTROL_PAUSE)] fresh)"

text \<open>Start succeeds, Pause succeeds, Continue fails with the error code 5.\<close>

definition scenario :: process where
  "scenario =
     snd (dispatch [(all_succeed, Request_ServiceMain (Some 1) 0 0 []),
                    (all_succeed, Request_Control SERVICE_CONTROL_PAUSE),
                    (all_fail (Thrown_DWORD 5), Request_Control SERVICE_CONTROL_CONTINUE)]
            fresh)"


section \<open>Properties\<close>

subsection \<open>Auxiliary facts\<close>

named_theorems win32 \<open>values of the Win32 constants\<close>

lemmas win32_values [win32] =
  SERVICE_STOPPED_def SERVICE_START_PENDING_def SERVICE_STOP_PENDING_def
  SERVICE_RUNNING_def SERVICE_CONTINUE_PENDING_def SERVICE_PAUSE_PENDING_def
  SERVICE_PAUSED_def SERVICE_CONTROL_STOP_def SERVICE_CONTROL_PAUSE_def
  SERVICE_CONTROL_CONTINUE_def SERVICE_CONTROL_INTERROGATE_def
  SERVICE_CONTROL_SHUTDOWN_def SERVICE_ACCEPT_STOP_def
  SERVICE_ACCEPT_PAUSE_CONTINUE_def SERVICE_ACCEPT_SHUTDOWN_def
  SERVICE_WIN32_OWN_PROCESS_def NO_ERROR_def EVENTLOG_ERROR_TYPE_def

text \<open>Observations of a longer list of calls, and \<^verbatim>\<open>setServiceStatus\<close> in one step.\<close>

lemma reports_of_append: "reports_of (xs @ ys) = reports_of xs @ reports_of ys"
  by (induction xs rule: reports_of.induct) simp_all

lemma logged_of_append: "logged_of (xs @ ys) = logged_of xs @ logged_of ys"
  by (induction xs rule: logged_of.induct) simp_all

lemma invoked_of_append: "invoked_of (xs @ ys) = invoked_of xs @ invoked_of ys"
  by (induction xs rule: invoked_of.induct) simp_all

lemma setServiceStatus_eq:
  "setServiceStatus st ec wh s =
     (None,
      s\<lparr> m_service := (m_service s)\<lparr>m_status := (m_status (m_service s))
            \<lparr> dwCurrentState := st, dwWin32ExitCode := ec, dwWaitHint := wh,
              dwCheckPoint := (if st = SERVICE_RUNNING \<or> st = SERVICE_STOPPED then 0
                               else static_dwCheckPoint s) \<rparr>\<rparr>,
         static_dwCheckPoint :=
           (if st = SERVICE_RUNNING \<or> st = SERVICE_STOPPED then static_dwCheckPoint s
            else static_dwCheckPoint s + 1),
         calls := calls s @ [SetServiceStatus_call (m_statusHandle (m_service s))
           ((m_status (m_service s))
            \<lparr> dwCurrentState := st, dwWin32ExitCode := ec, dwWaitHint := wh,
              dwCheckPoint := (if st = SERVICE_RUNNING \<or> st = SERVICE_STOPPED then 0
                               else static_dwCheckPoint s) \<rparr>)] \<rparr>)"
  by (simp add: setServiceStatus_def Let_def)

lemmas steps =
  setServiceStatus1_def setServiceStatus2_def setServiceStatus_eq
  default_dwWin32ExitCode_def default_dwWaitHint_def invoke_def throw_def
  writeErrorLogEntry_def writeEventLogEntry_def try_catch_def

lemmas transitions = start_def stop_def pause_def continue_def shutdown_def

lemmas observed = reports_def logged_def invoked_def
  reports_of_append logged_of_append invoked_of_append

lemmas concrete = all_succeed_def all_fail_def fresh_def loaded_def winService_ctor_def
  ServiceMain_def ServiceCtrlHandler_def

text \<open>The concrete runs, evaluated.\<close>

lemma started_eq:
  "started =
     \<lparr> m_service = \<lparr> m_name = ''svc'', m_statusHandle = Some 1,
         m_status = \<lparr> dwServiceType = 16, dwCurrentState = 4, dwControlsAccepted = 3,
           dwWin32ExitCode = 0, dwServiceSpecificExitCode = 0, dwCheckPoint = 0,
           dwWaitHint = 0 \<rparr> \<rparr>,
       static_dwCheckPoint = 2, eventSource = True,
       calls = [SetServiceStatus_call (Some 1)
                  \<lparr> dwServiceType = 16, dwCurrentState = 2, dwControlsAccepted = 3,
                    dwWin32ExitCode = 0, dwServiceSpecificExitCode = 0, dwCheckPoint = 1,
                    dwWaitHint = 0 \<rparr>,
                Callback_call (OnStart 0 []),
                SetServiceStatus_call (Some 1)
                  \<lparr> dwServiceType = 16, dwCurrentState = 4, dwControlsAccepted = 3,
                    dwWin32ExitCode = 0, dwServiceSpecificExitCode = 0, dwCheckPoint = 0,
                    dwWaitHint = 0 \<rparr>] \<rparr>"
  by (simp add: started_def concrete transitions steps win32)

lemma paused_reports:
  "map (\<lambda>r. (dwCurrentState r, dwCheckPoint r)) (reports paused) =
     [(SERVICE_START_PENDING, 1), (SERVICE_RUNNING, 0), (SERVICE_PAUSE_PENDING, 2),
      (SERVICE_PAUSED, 3)]"
  by (simp add: paused_def concrete transitions steps observed win32)

lemma paused_status:
  "dwCurrentState (m_status (m_service paused)) = SERVICE_PAUSED"
  by (simp add: paused_def concrete transitions steps observed win32)

lemma scenario_reports:
  "map (\<lambda>r. (dwCurrentState r, dwCheckPoint r)) (reports scenario) =
     [(SERVICE_START_PENDING, 1), (SERVICE_RUNNING, 0), (SERVICE_PAUSE_PENDING, 2),
      (SERVICE_PAUSED, 3), (SERVICE_CONTINUE_PENDING, 4), (SERVICE_PAUSED, 5)]"
  by (simp add: scenario_def concrete transitions steps observed win32)

subsection \<open>No exception leaves a transition\<close>

text \<open>
  A block of statements that do not throw does not throw, and a \<^verbatim>\<open>try\<close> statement
  whose handlers do not throw does not throw, whatever its body does.
\<close>

lemma fst_block:
  "(\<And>a s. a \<in> set as \<Longrightarrow> fst (a s) = None) \<Longrightarrow> fst (block as s) = None"
proof (induction as arbitrary: s)
  case Nil
  show ?case by simp
next
  case (Cons a as)
  obtain s' where "a s = (None, s')"
    using Cons.prems [of a s] by (cases "a s") simp
  then show ?case using Cons by simp
qed

lemma fst_try_catch:
  "(\<And>d s. fst (on_dword d s) = None) \<Longrightarrow> (\<And>s. fst (on_other s) = None) \<Longrightarrow>
   fst (try_catch body on_dword on_other s) = None"
  by (simp add: try_catch_def split: prod.split option.split thrown.split)

lemma fst_setServiceStatus [simp]: "fst (setServiceStatus st ec wh s) = None"
  by (simp add: setServiceStatus_def Let_def)

lemma fst_setServiceStatus1 [simp]: "fst (setServiceStatus1 st s) = None"
  by (simp add: setServiceStatus1_def)

lemma fst_setServiceStatus2 [simp]: "fst (setServiceStatus2 st ec s) = None"
  by (simp add: setServiceStatus2_def)

lemma fst_writeEventLogEntry [simp]: "fst (writeEventLogEntry m t s) = None"
  by (simp add: writeEventLogEntry_def)

lemma fst_writeErrorLogEntry [simp]: "fst (writeErrorLogEntry f d s) = None"
  by (simp add: writeErrorLogEntry_def)

lemma fst_start: "fst (start cbs dwArgc pszArgv s) = None"
  unfolding start_def by (rule fst_try_catch; rule fst_block) auto

lemma fst_stop: "fst (stop cbs s) = None"
  unfolding stop_def Let_def by (rule fst_try_catch; rule fst_block) auto

lemma fst_pause: "fst (pause cbs s) = None"
  unfolding pause_def by (rule fst_try_catch; rule fst_block) auto

lemma fst_continue: "fst (continue cbs s) = None"
  unfolding continue_def by (rule fst_try_catch; rule fst_block) auto

lemma fst_shutdown: "fst (shutdown cbs s) = None"
  unfolding shutdown_def by (rule fst_try_catch) auto

lemma fst_ServiceCtrlHandler: "fst (ServiceCtrlHandler cbs dwCtrl s) = None"
  by (simp add: ServiceCtrlHandler_def fst_stop fst_pause fst_continue fst_shutdown)

subsection \<open>The numbering of the reports is an invariant\<close>






















subsection \<open>What the numbering gives\<close>








subsection \<open>Pause requests that fail on a running service\<close>





lemma map_nth_eq: "map f xs = ys \<Longrightarrow> i < length ys \<Longrightarrow> f (xs ! i) = ys ! i"
  by (metis length_map nth_map)


text \<open>No control request changes the status handle that \<^verbatim>\<open>ServiceMain\<close> stored.\<close>

lemma handle_setServiceStatus:
  "m_statusHandle (m_service (snd (setServiceStatus st ec wh s))) = m_statusHandle (m_service s)"
  by (simp add: setServiceStatus_eq)





subsection \<open>The scenario, and what a failed transition logs\<close>


lemma logged_start:
  "onStart cbs dwArgc pszArgv = Some e \<Longrightarrow>
   logged (snd (start cbs dwArgc pszArgv s)) =
     logged (snd ((case e of
                     Thrown_DWORD dwError \<Rightarrow> writeErrorLogEntry ''Service Start'' dwError
                   | Thrown_other \<Rightarrow>
                       writeEventLogEntry ''Service failed to start.'' EVENTLOG_ERROR_TYPE) s))"
  by (cases e) (simp_all add: start_def steps observed)

lemma logged_stop:
  "onStop cbs = Some e \<Longrightarrow>
   logged (snd (stop cbs s)) =
     logged (snd ((case e of
                     Thrown_DWORD dwError \<Rightarrow> writeErrorLogEntry ''Service Stop'' dwError
                   | Thrown_other \<Rightarrow>
                       writeEventLogEntry ''Service failed to stop.'' EVENTLOG_ERROR_TYPE) s))"
  by (cases e) (simp_all add: stop_def steps observed Let_def)

lemma logged_pause:
  "onPause cbs = Some e \<Longrightarrow>
   logged (snd (pause cbs s)) =
     logged (snd ((case e of
                     Thrown_DWORD dwError \<Rightarrow> writeErrorLogEntry ''Service Pause'' dwError
                   | Thrown_other \<Rightarrow>
                       writeEventLogEntry ''Service failed to pause.'' EVENTLOG_ERROR_TYPE) s))"
  by (cases e) (simp_all add: pause_def steps observed)

lemma logged_continue:
  "onContinue cbs = Some e \<Longrightarrow>
   logged (snd (continue cbs s)) =
     logged (snd ((case e of
                     Thrown_DWORD dwError \<Rightarrow> writeErrorLogEntry ''Service Continue'' dwError
                   | Thrown_other \<Rightarrow>
                       writeEventLogEntry ''Service failed to resume.'' EVENTLOG_ERROR_TYPE) s))"
  by (cases e) (simp_all add: continue_def steps observed)

lemma logged_shutdown:
  "onShutdown cbs = Some e \<Longrightarrow>
   logged (snd (shutdown cbs s)) =
     logged (snd ((case e of
                     Thrown_DWORD dwError \<Rightarrow> writeErrorLogEntry ''Service Shutdown'' dwError
                   | Thrown_other \<Rightarrow>
                       writeEventLogEntry ''Service failed to shut down.'' EVENTLOG_ERROR_TYPE) s))"
  by (cases e) (simp_all add: shutdown_def steps observed)

subsection \<open>Rollback after a failed Stop, Pause or Continue\<close>

text \<open>
  C1 (as amended). When the callback of Stop, Pause or Continue throws (a \<^verbatim>\<open>DWORD\<close> or
  anything else), exactly two reports are issued, the pending one and a final one. After a
  failed Stop the final report carries the state that \<^verbatim>\<open>status_\<close> held before
  \<^verbatim>\<open>SERVICE_STOP_PENDING\<close> was reported. After a failed Pause it carries
  \<^verbatim>\<open>SERVICE_RUNNING\<close> and after a failed Continue \<^verbatim>\<open>SERVICE_PAUSED\<close>, whatever the
  state was before: these are constants of the code, and they are the earlier state only
  when the request arrived in that state.
\<close>

theorem C1_rollback_states:
  "(onStop cbs = Some e \<longrightarrow>
      map dwCurrentState (reports (snd (stop cbs s))) =
        map dwCurrentState (reports s) @
          [SERVICE_STOP_PENDING, dwCurrentState (m_status (m_service s))] \<and>
      dwCurrentState (m_status (m_service (snd (stop cbs s)))) =
        dwCurrentState (m_status (m_service s))) \<and>
   (onPause cbs = Some e \<longrightarrow>
      map dwCurrentState (reports (snd (pause cbs s))) =
        map dwCurrentState (reports s) @ [SERVICE_PAUSE_PENDING, SERVICE_RUNNING] \<and>
      dwCurrentState (m_status (m_service (snd (pause cbs s)))) = SERVICE_RUNNING) \<and>
   (onContinue cbs = Some e \<longrightarrow>
      map dwCurrentState (reports (snd (continue cbs s))) =
        map dwCurrentState (reports s) @ [SERVICE_CONTINUE_PENDING, SERVICE_PAUSED] \<and>
      dwCurrentState (m_status (m_service (snd (continue cbs s)))) = SERVICE_PAUSED)"
  by (cases e) (simp_all add: transitions steps observed Let_def)

text \<open>The three failures on a paused service, each with the error code 5.\<close>

theorem C1_rollback_states_witness:
  "map dwCurrentState (reports (snd (stop (all_fail (Thrown_DWORD 5)) paused))) =
     map dwCurrentState (reports paused) @ [SERVICE_STOP_PENDING, SERVICE_PAUSED] \<and>
   map dwCurrentState (reports (snd (pause (all_fail (Thrown_DWORD 5)) paused))) =
     map dwCurrentState (reports paused) @ [SERVICE_PAUSE_PENDING, SERVICE_RUNNING] \<and>
   map dwCurrentState (reports (snd (continue (all_fail (Thrown_DWORD 5)) paused))) =
     map dwCurrentState (reports paused) @ [SERVICE_CONTINUE_PENDING, SERVICE_PAUSED]"
  using C1_rollback_states [of "all_fail (Thrown_DWORD 5)" "Thrown_DWORD 5" paused]
  by (simp add: all_fail_def paused_status)

text \<open>
  C1 as stated fails: a Pause request that reaches a paused service and whose callback
  throws ends with a report of \<^verbatim>\<open>SERVICE_RUNNING\<close>, not of the state that was current
  before \<^verbatim>\<open>SERVICE_PAUSE_PENDING\<close> was reported.
\<close>

theorem C1_pause_while_paused_counterexample:
  "dwCurrentState (m_status (m_service paused)) = SERVICE_PAUSED \<and>
   dwCurrentState (last (reports paused)) = SERVICE_PAUSED \<and>
   dwCurrentState (last (reports (snd (pause (all_fail (Thrown_DWORD 5)) paused)))) =
     SERVICE_RUNNING \<and>
   dwCurrentState (last (reports (snd (pause (all_fail (Thrown_DWORD 5)) paused)))) \<noteq>
     dwCurrentState (m_status (m_service paused))"
  by (simp add: paused_def concrete transitions steps observed win32)

subsection \<open>The checkpoint of a report\<close>

text \<open>
  C2 (as amended). Every call of \<^verbatim>\<open>setServiceStatus\<close> issues one report; its checkpoint
  is 0 when the state is \<^verbatim>\<open>SERVICE_RUNNING\<close> or \<^verbatim>\<open>SERVICE_STOPPED\<close> and the static
  counter otherwise, which is then incremented. \<^verbatim>\<open>SERVICE_PAUSED\<close> is not among the
  states that reset: in the scenario Start (success), Pause (success), Continue (failure
  with code 5) the six reports carry the checkpoints 1, 0, 2, 3, 4, 5, so the two reports of
  \<^verbatim>\<open>SERVICE_PAUSED\<close> carry 3 and 5.
\<close>

theorem C2_checkpoint_rule:
  "reports (snd (setServiceStatus st ec wh s)) =
     reports s @
       [(m_status (m_service s))
          \<lparr> dwCurrentState := st, dwWin32ExitCode := ec, dwWaitHint := wh,
            dwCheckPoint := (if st = SERVICE_RUNNING \<or> st = SERVICE_STOPPED then 0
                             else static_dwCheckPoint s) \<rparr>] \<and>
   static_dwCheckPoint (snd (setServiceStatus st ec wh s)) =
     (if st = SERVICE_RUNNING \<or> st = SERVICE_STOPPED then static_dwCheckPoint s
      else static_dwCheckPoint s + 1) \<and>
   map (\<lambda>r. (dwCurrentState r, dwCheckPoint r)) (reports scenario) =
     [(SERVICE_START_PENDING, 1), (SERVICE_RUNNING, 0), (SERVICE_PAUSE_PENDING, 2),
      (SERVICE_PAUSED, 3), (SERVICE_CONTINUE_PENDING, 4), (SERVICE_PAUSED, 5)]"
  using scenario_reports by (simp add: setServiceStatus_eq reports_def reports_of_append)

text \<open>A report of \<^verbatim>\<open>SERVICE_PAUSED\<close> on a started service, whose counter holds 2.\<close>

theorem C2_checkpoint_rule_witness:
  "map (\<lambda>r. (dwCurrentState r, dwCheckPoint r))
       (reports (snd (setServiceStatus SERVICE_PAUSED NO_ERROR 0 started))) =
     [(SERVICE_START_PENDING, 1), (SERVICE_RUNNING, 0), (SERVICE_PAUSED, 2)] \<and>
   static_dwCheckPoint (snd (setServiceStatus SERVICE_PAUSED NO_ERROR 0 started)) = 3"
  using C2_checkpoint_rule [of SERVICE_PAUSED NO_ERROR 0 started]
  by (simp add: started_eq reports_def win32)

text \<open>
  C2 as stated fails: in the scenario the reports of \<^verbatim>\<open>SERVICE_PAUSED\<close> (the fourth and
  the sixth) carry the checkpoints 3 and 5, not the baseline 0.
\<close>

theorem C2_paused_checkpoint_counterexample:
  "dwCurrentState (reports scenario ! 3) = SERVICE_PAUSED \<and>
   dwCheckPoint (reports scenario ! 3) = 3 \<and>
   dwCurrentState (reports scenario ! 5) = SERVICE_PAUSED \<and>
   dwCheckPoint (reports scenario ! 5) = 5 \<and>
   dwCheckPoint (reports scenario ! 5) \<noteq> 0"
  using map_nth_eq [OF scenario_reports, of 3] map_nth_eq [OF scenario_reports, of 5]
  by simp

subsection \<open>Containment of failures\<close>

text \<open>
  C3. Each of \<^verbatim>\<open>start\<close>, \<^verbatim>\<open>stop\<close>, \<^verbatim>\<open>pause\<close>, \<^verbatim>\<open>_continue\<close> and \<^verbatim>\<open>shutdown\<close>
  returns normally, whatever its callback does: no exception leaves the transition. When
  the callback throws, the event log receives what \<^verbatim>\<open>writeErrorLogEntry\<close> (for a
  \<^verbatim>\<open>DWORD\<close>) or \<^verbatim>\<open>writeEventLogEntry\<close> (for anything else) writes for that transition.
\<close>

theorem C3_no_exception_escapes:
  "fst (start cbs dwArgc pszArgv s) = None \<and>
   fst (stop cbs s) = None \<and>
   fst (pause cbs s) = None \<and>
   fst (continue cbs s) = None \<and>
   fst (shutdown cbs s) = None \<and>
   (onStart cbs dwArgc pszArgv = Some e \<longrightarrow>
      logged (snd (start cbs dwArgc pszArgv s)) =
        logged (snd ((case e of
                        Thrown_DWORD dwError \<Rightarrow> writeErrorLogEntry ''Service Start'' dwError
                      | Thrown_other \<Rightarrow>
                          writeEventLogEntry ''Service failed to start.'' EVENTLOG_ERROR_TYPE)
                     s))) \<and>
   (onStop cbs = Some e \<longrightarrow>
      logged (snd (stop cbs s)) =
        logged (snd ((case e of
                        Thrown_DWORD dwError \<Rightarrow> writeErrorLogEntry ''Service Stop'' dwError
                      | Thrown_other \<Rightarrow>
                          writeEventLogEntry ''Service failed to stop.'' EVENTLOG_ERROR_TYPE)
                     s))) \<and>
   (onPause cbs = Some e \<longrightarrow>
      logged (snd (pause cbs s)) =
        logged (snd ((case e of
                        Thrown_DWORD dwError \<Rightarrow> writeErrorLogEntry ''Service Pause'' dwError
                      | Thrown_other \<Rightarrow>
                          writeEventLogEntry ''Service failed to pause.'' EVENTLOG_ERROR_TYPE)
                     s))) \<and>
   (onContinue cbs = Some e \<longrightarrow>
      logged (snd (continue cbs s)) =
        logged (snd ((case e of
                        Thrown_DWORD dwError \<Rightarrow> writeErrorLogEntry ''Service Continue'' dwError
                      | Thrown_other \<Rightarrow>
                          writeEventLogEntry ''Service failed to resume.'' EVENTLOG_ERROR_TYPE)
                     s))) \<and>
   (onShutdown cbs = Some e \<longrightarrow>
      logged (snd (shutdown cbs s)) =
        logged (snd ((case e of
                        Thrown_DWORD dwError \<Rightarrow> writeErrorLogEntry ''Service Shutdown'' dwError
                      | Thrown_other \<Rightarrow>
                          writeEventLogEntry ''Service failed to shut down.''
                            EVENTLOG_ERROR_TYPE)
                     s)))"
  using fst_start fst_stop fst_pause fst_continue fst_shutdown
    logged_start logged_stop logged_pause logged_continue logged_shutdown
  by (intro conjI impI) blast+

text \<open>Every callback fails with the error code 5 on a started service.\<close>

theorem C3_no_exception_escapes_witness:
  "fst (start (all_fail (Thrown_DWORD 5)) 0 [] started) = None \<and>
   fst (stop (all_fail (Thrown_DWORD 5)) started) = None \<and>
   fst (pause (all_fail (Thrown_DWORD 5)) started) = None \<and>
   fst (continue (all_fail (Thrown_DWORD 5)) started) = None \<and>
   fst (shutdown (all_fail (Thrown_DWORD 5)) started) = None \<and>
   logged (snd (start (all_fail (Thrown_DWORD 5)) 0 [] started)) =
     [(EVENTLOG_ERROR_TYPE, [''svc'', ''Service Start failed w/err 0x00000005''])] \<and>
   logged (snd (stop (all_fail (Thrown_DWORD 5)) started)) =
     [(EVENTLOG_ERROR_TYPE, [''svc'', ''Service Stop failed w/err 0x00000005''])] \<and>
   logged (snd (pause (all_fail (Thrown_DWORD 5)) started)) =
     [(EVENTLOG_ERROR_TYPE, [''svc'', ''Service Pause failed w/err 0x00000005''])] \<and>
   logged (snd (continue (all_fail (Thrown_DWORD 5)) started)) =
     [(EVENTLOG_ERROR_TYPE, [''svc'', ''Service Continue failed w/err 0x00000005''])] \<and>
   logged (snd (shutdown (all_fail (Thrown_DWORD 5)) started)) =
     [(EVENTLOG_ERROR_TYPE, [''svc'', ''Service Shutdown failed w/err 0x00000005''])]"
  using C3_no_exception_escapes [of "all_fail (Thrown_DWORD 5)" 0 "[]" started "Thrown_DWORD 5"]
  by (simp add: all_fail_def started_eq writeErrorLogEntry_def writeEventLogEntry_def
        logged_def hex08lx_def hex_digit_def EVENTLOG_ERROR_TYPE_def)

subsection \<open>A failed start\<close>

text \<open>
  C4. When \<^verbatim>\<open>onStart\<close> throws, in whatever state the controller was, \<^verbatim>\<open>start\<close> issues
  the report of \<^verbatim>\<open>SERVICE_START_PENDING\<close> and then a final report of
  \<^verbatim>\<open>SERVICE_STOPPED\<close>, whose exit code is the thrown \<^verbatim>\<open>DWORD\<close>; a failure that carries
  no code leaves the default \<^verbatim>\<open>NO_ERROR\<close> there.
\<close>

theorem C4_start_failure:
  "onStart cbs dwArgc pszArgv = Some e \<Longrightarrow>
   map (\<lambda>r. (dwCurrentState r, dwWin32ExitCode r))
       (reports (snd (start cbs dwArgc pszArgv s))) =
     map (\<lambda>r. (dwCurrentState r, dwWin32ExitCode r)) (reports s) @
       [(SERVICE_START_PENDING, NO_ERROR),
        (SERVICE_STOPPED,
         case e of Thrown_DWORD dwError \<Rightarrow> dwError | Thrown_other \<Rightarrow> NO_ERROR)] \<and>
   dwCurrentState (m_status (m_service (snd (start cbs dwArgc pszArgv s)))) = SERVICE_STOPPED \<and>
   dwWin32ExitCode (m_status (m_service (snd (start cbs dwArgc pszArgv s)))) =
     (case e of Thrown_DWORD dwError \<Rightarrow> dwError | Thrown_other \<Rightarrow> NO_ERROR)"
  by (cases e) (simp_all add: start_def steps observed)

text \<open>A start that fails with the code 5, on a fresh and on a paused service.\<close>

theorem C4_start_failure_witness:
  "map (\<lambda>r. (dwCurrentState r, dwWin32ExitCode r))
       (reports (snd (start (all_fail (Thrown_DWORD 5)) 0 [] fresh))) =
     [(SERVICE_START_PENDING, NO_ERROR), (SERVICE_STOPPED, 5)] \<and>
   map (\<lambda>r. (dwCurrentState r, dwWin32ExitCode r))
       (reports (snd (start (all_fail (Thrown_DWORD 5)) 0 [] paused))) =
     map (\<lambda>r. (dwCurrentState r, dwWin32ExitCode r)) (reports paused) @
       [(SERVICE_START_PENDING, NO_ERROR), (SERVICE_STOPPED, 5)]"
  using C4_start_failure [of "all_fail (Thrown_DWORD 5)" 0 "[]" "Thrown_DWORD 5" fresh]
    C4_start_failure [of "all_fail (Thrown_DWORD 5)" 0 "[]" "Thrown_DWORD 5" paused]
  by (simp add: all_fail_def fresh_def loaded_def reports_def)

subsection \<open>The control handler\<close>

text \<open>
  C5 (as amended). An Interrogate request changes nothing: \<^verbatim>\<open>ServiceCtrlHandler\<close>
  returns with every member as it was, and it makes no call at all, so no status report is
  sent for it.
\<close>

theorem C5_interrogate_is_silent:
  "ServiceCtrlHandler cbs SERVICE_CONTROL_INTERROGATE s = (None, s)"
  by (simp add: ServiceCtrlHandler_def win32)

theorem C5_interrogate_is_silent_witness:
  "ServiceCtrlHandler all_succeed SERVICE_CONTROL_INTERROGATE paused = (None, paused)"
  using C5_interrogate_is_silent [of all_succeed paused] by simp

text \<open>
  C5 as stated fails: a started service has sent two reports, and after an Interrogate
  request it still has sent two; the handler has made no call.
\<close>

theorem C5_no_report_counterexample:
  "length (reports started) = 2 \<and>
   length (reports (snd (ServiceCtrlHandler all_succeed SERVICE_CONTROL_INTERROGATE started))) = 2 \<and>
   calls (snd (ServiceCtrlHandler all_succeed SERVICE_CONTROL_INTERROGATE started)) =
     calls started"
  by (simp add: ServiceCtrlHandler_def win32 started_eq reports_def)

text \<open>
  C8. A control code other than Stop, Pause, Continue, Shutdown and Interrogate leaves the
  controller as it was and produces no report (no call at all).
\<close>

theorem C8_unknown_control:
  "dwCtrl \<noteq> SERVICE_CONTROL_STOP \<Longrightarrow> dwCtrl \<noteq> SERVICE_CONTROL_PAUSE \<Longrightarrow>
   dwCtrl \<noteq> SERVICE_CONTROL_CONTINUE \<Longrightarrow> dwCtrl \<noteq> SERVICE_CONTROL_SHUTDOWN \<Longrightarrow>
   dwCtrl \<noteq> SERVICE_CONTROL_INTERROGATE \<Longrightarrow>
   ServiceCtrlHandler cbs dwCtrl s = (None, s)"
  by (simp add: ServiceCtrlHandler_def)

text \<open>The first user-defined control code, 128.\<close>

theorem C8_unknown_control_witness:
  "(128 :: DWORD) \<noteq> SERVICE_CONTROL_STOP \<and> (128 :: DWORD) \<noteq> SERVICE_CONTROL_PAUSE \<and>
   (128 :: DWORD) \<noteq> SERVICE_CONTROL_CONTINUE \<and> (128 :: DWORD) \<noteq> SERVICE_CONTROL_SHUTDOWN \<and>
   (128 :: DWORD) \<noteq> SERVICE_CONTROL_INTERROGATE \<and>
   ServiceCtrlHandler (all_fail Thrown_other) 128 started = (None, started)"
  using C8_unknown_control [of 128 "all_fail Thrown_other" started] by (simp add: win32)

subsection \<open>Shutdown\<close>




subsection \<open>Checkpoints along a run\<close>




subsection \<open>Exit codes\<close>

text \<open>
  C9. When the callback of Stop, Pause or Continue throws a \<^verbatim>\<open>DWORD\<close>, the pending
  report and the rollback report both carry the exit code \<^verbatim>\<open>NO_ERROR\<close>, and so does
  \<^verbatim>\<open>status_\<close> afterwards: the thrown code is not reported. Only \<^verbatim>\<open>start\<close> passes the
  thrown code on as the exit code of its final report.
\<close>

theorem C9_rollback_exit_code:
  "(onStop cbs = Some (Thrown_DWORD dwError) \<longrightarrow>
      map dwWin32ExitCode (reports (snd (stop cbs s))) =
        map dwWin32ExitCode (reports s) @ [NO_ERROR, NO_ERROR] \<and>
      dwWin32ExitCode (m_status (m_service (snd (stop cbs s)))) = NO_ERROR) \<and>
   (onPause cbs = Some (Thrown_DWORD dwError) \<longrightarrow>
      map dwWin32ExitCode (reports (snd (pause cbs s))) =
        map dwWin32ExitCode (reports s) @ [NO_ERROR, NO_ERROR] \<and>
      dwWin32ExitCode (m_status (m_service (snd (pause cbs s)))) = NO_ERROR) \<and>
   (onContinue cbs = Some (Thrown_DWORD dwError) \<longrightarrow>
      map dwWin32ExitCode (reports (snd (continue cbs s))) =
        map dwWin32ExitCode (reports s) @ [NO_ERROR, NO_ERROR] \<and>
      dwWin32ExitCode (m_status (m_service (snd (continue cbs s)))) = NO_ERROR) \<and>
   (onStart cbs dwArgc pszArgv = Some (Thrown_DWORD dwError) \<longrightarrow>
      map dwWin32ExitCode (reports (snd (start cbs dwArgc pszArgv s))) =
        map dwWin32ExitCode (reports s) @ [NO_ERROR, dwError])"
  by (simp add: transitions steps observed Let_def)

text \<open>Every callback fails with the code 5 on a started service.\<close>

theorem C9_rollback_exit_code_witness:
  "map dwWin32ExitCode (reports (snd (stop (all_fail (Thrown_DWORD 5)) started))) =
     [NO_ERROR, NO_ERROR, NO_ERROR, NO_ERROR] \<and>
   map dwWin32ExitCode (reports (snd (pause (all_fail (Thrown_DWORD 5)) started))) =
     [NO_ERROR, NO_ERROR, NO_ERROR, NO_ERROR] \<and>
   map dwWin32ExitCode (reports (snd (continue (all_fail (Thrown_DWORD 5)) started))) =
     [NO_ERROR, NO_ERROR, NO_ERROR, NO_ERROR] \<and>
   map dwWin32ExitCode (reports (snd (start (all_fail (Thrown_DWORD 5)) 0 [] started))) =
     [NO_ERROR, NO_ERROR, NO_ERROR, 5]"
  using C9_rollback_exit_code [of "all_fail (Thrown_DWORD 5)" 5 started 0 "[]"]
  by (simp add: all_fail_def started_eq reports_def NO_ERROR_def)

subsection \<open>The constructed controller\<close>

text \<open>
  C10. The constructor leaves the status with the type \<^verbatim>\<open>SERVICE_WIN32_OWN_PROCESS\<close>, the
  state \<^verbatim>\<open>SERVICE_START_PENDING\<close>, the exit code \<^verbatim>\<open>NO_ERROR\<close>, the service-specific
  exit code 0, the checkpoint 0 and the wait hint 0; the accepted controls are the union of
  \<^verbatim>\<open>SERVICE_ACCEPT_STOP\<close>, \<^verbatim>\<open>SERVICE_ACCEPT_SHUTDOWN\<close> and
  \<^verbatim>\<open>SERVICE_ACCEPT_PAUSE_CONTINUE\<close> for the flags that are true (not 0); the status
  handle is \<^verbatim>\<open>NULL\<close>; a \<^verbatim>\<open>NULL\<close> name becomes the empty string; and no call has been
  made when the service is loaded.
\<close>

theorem C10_constructed:
  "m_status (winService_ctor pszServiceName fCanStop fCanShutdown fCanPauseContinue) =
     \<lparr> dwServiceType = SERVICE_WIN32_OWN_PROCESS,
       dwCurrentState = SERVICE_START_PENDING,
       dwControlsAccepted =
         (if fCanStop \<noteq> 0 then SERVICE_ACCEPT_STOP else 0) OR
         (if fCanShutdown \<noteq> 0 then SERVICE_ACCEPT_SHUTDOWN else 0) OR
         (if fCanPauseContinue \<noteq> 0 then SERVICE_ACCEPT_PAUSE_CONTINUE else 0),
       dwWin32ExitCode = NO_ERROR,
       dwServiceSpecificExitCode = 0,
       dwCheckPoint = 0,
       dwWaitHint = 0 \<rparr> \<and>
   m_statusHandle (winService_ctor pszServiceName fCanStop fCanShutdown fCanPauseContinue) = None \<and>
   m_name (winService_ctor pszServiceName fCanStop fCanShutdown fCanPauseContinue) =
     (case pszServiceName of None \<Rightarrow> '''' | Some n \<Rightarrow> n) \<and>
   calls (loaded (winService_ctor pszServiceName fCanStop fCanShutdown fCanPauseContinue) ev) = []"
  by (simp add: winService_ctor_def loaded_def Let_def or.assoc)

text \<open>Three constructions: stop and pause/continue, shutdown only, and a given name.\<close>

theorem C10_constructed_witness:
  "dwControlsAccepted (m_status (winService_ctor None 1 0 1)) = 3 \<and>
   dwControlsAccepted (m_status (winService_ctor None 0 2 0)) = 4 \<and>
   dwCurrentState (m_status (winService_ctor None 1 0 1)) = SERVICE_START_PENDING \<and>
   m_name (winService_ctor None 1 0 1) = '''' \<and>
   m_name (winService_ctor (Some ''svc'') 1 0 1) = ''svc''"
  using C10_constructed [of None 1 0 1 True] C10_constructed [of None 0 2 0 True]
    C10_constructed [of "Some ''svc''" 1 0 1 True]
  by (simp add: win32)

end
